theory Spec2Isabelle
  imports Main
begin

section \<open>JavaScript values\<close>

text \<open>
  The localization service of \<^verbatim>\<open>src/include/localization.js\<close> keeps its data in plain
  JavaScript objects whose property names are built from strings (\<^verbatim>\<open>'__' + language\<close>,
  \<^verbatim>\<open>__plugins\<close>, \<^verbatim>\<open>__default\<close>, plugin names). The embedding keeps that representation:
  an object is the list of its own properties in insertion order, and the tree of
  \<^verbatim>\<open>Localization.storage\<close> is a value of the type below.

  Scope of the value model: \<^verbatim>\<open>undefined\<close>, \<^verbatim>\<open>null\<close>, booleans, strings (as lists of
  8-bit characters), plain objects and the built-in functions that every plain object
  inherits from \<^verbatim>\<open>Object.prototype\<close>. There are no numbers and no arrays. A plain object
  answers a name it does not own with the member of \<^verbatim>\<open>Object.prototype\<close> of that name, as
  it is when the module is loaded. The built-in objects are shared by all objects and are
  not part of the state: what a call writes to one of them is not kept.

  A function that changes the storage or an instance returns its outcome together with the
  state it leaves behind: \<open>Inr\<close> with the value returned, or \<open>Inl\<close> with the error raised
  and the state as it was when the error was raised.
\<close>

datatype jsval =
    JUndefined
  | JNull
  | JBool bool
  | JStr string
  | JObj "(string \<times> jsval) list"
  | JFun string "(string \<times> jsval) list"

type_synonym jsobj = "(string \<times> jsval) list"

datatype error = Error string | TypeError

text \<open>
  \<open>JObj\<close> is a plain object with its own properties. \<open>JFun\<close> is a built-in function: its
  name and the properties that have been added to it.

  The lodash predicates \<^verbatim>\<open>_.isString\<close>, \<^verbatim>\<open>_.isObject\<close> (true of functions too), \<^verbatim>\<open>_.isNil\<close>
  and JavaScript truthiness.
\<close>

fun isString :: "jsval \<Rightarrow> bool" where
  "isString (JStr s) = True"
| "isString v = False"

fun isObject :: "jsval \<Rightarrow> bool" where
  "isObject (JObj ps) = True"
| "isObject (JFun f ps) = True"
| "isObject v = False"

fun isNil :: "jsval \<Rightarrow> bool" where
  "isNil JUndefined = True"
| "isNil JNull = True"
| "isNil v = False"

fun truthy :: "jsval \<Rightarrow> bool" where
  "truthy JUndefined = False"
| "truthy JNull = False"
| "truthy (JBool b) = b"
| "truthy (JStr s) = (s \<noteq> [])"
| "truthy (JObj ps) = True"
| "truthy (JFun f ps) = True"

text \<open>\<^verbatim>\<open>a || b\<close>\<close>

definition js_or :: "jsval \<Rightarrow> jsval \<Rightarrow> jsval" where
  "js_or a b = (if truthy a then a else b)"

text \<open>
  String conversion, as performed by \<^verbatim>\<open>val += x\<close> on a string \<^verbatim>\<open>val\<close> and by the use of
  a value as a property name. An object is converted by the \<^verbatim>\<open>toString\<close> it inherits; an
  object that carries a \<^verbatim>\<open>toString\<close> or \<^verbatim>\<open>valueOf\<close> of its own is converted in the same way
  here, whereas JavaScript would call (or fail to call) that property.
\<close>

fun to_string :: "jsval \<Rightarrow> string" where
  "to_string JUndefined = ''undefined''"
| "to_string JNull = ''null''"
| "to_string (JBool b) = (if b then ''true'' else ''false'')"
| "to_string (JStr s) = s"
| "to_string (JObj ps) = ''[object Object]''"
| "to_string (JFun f ps) = ''function '' @ f @ ''() { [native code] }''"

subsection \<open>Properties\<close>

fun own_get :: "jsobj \<Rightarrow> string \<Rightarrow> jsval" where
  "own_get [] n = JUndefined"
| "own_get (p # ps) n = (if fst p = n then snd p else own_get ps n)"

text \<open>
  The own properties of \<^verbatim>\<open>Object.prototype\<close> when the module is loaded: eleven functions
  and the accessor \<^verbatim>\<open>__proto__\<close>, which answers a plain object with \<^verbatim>\<open>Object.prototype\<close>
  itself.
\<close>

definition Object_prototype :: jsobj where
  "Object_prototype =
     [(''constructor'', JFun ''Object'' []),
      (''__defineGetter__'', JFun ''__defineGetter__'' []),
      (''__defineSetter__'', JFun ''__defineSetter__'' []),
      (''hasOwnProperty'', JFun ''hasOwnProperty'' []),
      (''__lookupGetter__'', JFun ''__lookupGetter__'' []),
      (''__lookupSetter__'', JFun ''__lookupSetter__'' []),
      (''isPrototypeOf'', JFun ''isPrototypeOf'' []),
      (''propertyIsEnumerable'', JFun ''propertyIsEnumerable'' []),
      (''toString'', JFun ''toString'' []),
      (''valueOf'', JFun ''valueOf'' []),
      (''toLocaleString'', JFun ''toLocaleString'' [])]"

definition inherited :: "string \<Rightarrow> jsval" where
  "inherited n = (if n = ''__proto__'' then JObj Object_prototype else own_get Object_prototype n)"

fun own_props :: "jsval \<Rightarrow> jsobj" where
  "own_props (JObj ps) = ps"
| "own_props (JFun f ps) = ps"
| "own_props v = []"

definition has_own :: "jsval \<Rightarrow> string \<Rightarrow> bool" where
  "has_own v n = (n \<in> set (map fst (own_props v)))"

text \<open>
  \<^verbatim>\<open>o[name]\<close>: the own property, or else the inherited one. Reading a property of
  \<^verbatim>\<open>undefined\<close> or \<^verbatim>\<open>null\<close> raises a TypeError in JavaScript; every function below that
  can reach such a read tests for it before calling \<open>get_prop\<close>. A read on a boolean or
  string primitive gives \<^verbatim>\<open>undefined\<close> here (the properties of strings and of the wrapper
  prototypes are not modelled), and a function answers the names it does not own like a
  plain object (the properties of \<^verbatim>\<open>Function.prototype\<close> and the own \<^verbatim>\<open>name\<close> and
  \<^verbatim>\<open>length\<close> are not modelled).
\<close>

fun get_prop :: "jsval \<Rightarrow> string \<Rightarrow> jsval" where
  "get_prop (JObj ps) n = (if n \<in> set (map fst ps) then own_get ps n else inherited n)"
| "get_prop (JFun f ps) n = (if n \<in> set (map fst ps) then own_get ps n else inherited n)"
| "get_prop v n = JUndefined"

text \<open>\<^verbatim>\<open>o[name] = v\<close>: an existing property keeps its place, a new one is appended.\<close>

fun own_set :: "jsobj \<Rightarrow> string \<Rightarrow> jsval \<Rightarrow> jsobj" where
  "own_set [] n v = [(n, v)]"
| "own_set (p # ps) n v = (if fst p = n then (n, v) # ps else p # own_set ps n v)"

text \<open>\<^verbatim>\<open>delete o[name]\<close>\<close>

fun own_delete :: "jsobj \<Rightarrow> string \<Rightarrow> jsobj" where
  "own_delete [] n = []"
| "own_delete (p # ps) n = (if fst p = n then own_delete ps n else p # own_delete ps n)"

text \<open>
  In-place mutation of a nested object is written as a functional update of the parent.
  Both are only applied to objects; assignment to a property of a primitive (a TypeError in
  strict mode) is tested for by the callers. An assignment to the name \<^verbatim>\<open>__proto__\<close>, which
  in JavaScript replaces the prototype of the object, is kept as a property of that name: it
  is read back under the same name, and the object goes on inheriting from
  \<^verbatim>\<open>Object.prototype\<close>.
\<close>

fun set_prop :: "jsval \<Rightarrow> string \<Rightarrow> jsval \<Rightarrow> jsval" where
  "set_prop (JObj ps) n v = JObj (own_set ps n v)"
| "set_prop (JFun f ps) n v = JFun f (own_set ps n v)"
| "set_prop w n v = w"

fun delete_prop :: "jsval \<Rightarrow> string \<Rightarrow> jsval" where
  "delete_prop (JObj ps) n = JObj (own_delete ps n)"
| "delete_prop (JFun f ps) n = JFun f (own_delete ps n)"
| "delete_prop w n = w"

text \<open>
  A block is changed through a reference obtained from its parent. When the parent owns the
  block, the change is stored in the parent. When the parent does not own it, the block was
  inherited: it is a built-in object, and the change is not kept.
\<close>

definition put_back :: "jsval \<Rightarrow> string \<Rightarrow> jsval \<Rightarrow> jsval" where
  "put_back parent n child = (if has_own parent n then set_prop parent n child else parent)"

text \<open>
  \<^verbatim>\<open>Object.keys(o)\<close>: property names that are canonical array indices come first, in
  ascending numeric order, then all other names in insertion order. The code applies it to
  objects; for a primitive the list is empty here (JavaScript lists the indices of a string).
\<close>

definition is_digit :: "char \<Rightarrow> bool" where
  "is_digit c = (let n = (of_char c :: nat) in 48 \<le> n \<and> n \<le> 57)"

definition dec_val :: "string \<Rightarrow> int" where
  "dec_val s = foldl (\<lambda>a c. 10 * a + ((of_char c :: int) - 48)) 0 s"

definition is_array_index :: "string \<Rightarrow> bool" where
  "is_array_index s =
     (s \<noteq> [] \<and> list_all is_digit s \<and> (s = ''0'' \<or> hd s \<noteq> CHR ''0'') \<and> dec_val s < 4294967295)"

definition own_entries :: "jsobj \<Rightarrow> (string \<times> jsval) list" where
  "own_entries ps =
     sort_key (\<lambda>p. dec_val (fst p)) (filter (\<lambda>p. is_array_index (fst p)) ps)
       @ filter (\<lambda>p. \<not> is_array_index (fst p)) ps"

definition own_keys :: "jsobj \<Rightarrow> string list" where
  "own_keys ps = map fst (own_entries ps)"

fun object_keys :: "jsval \<Rightarrow> string list" where
  "object_keys (JObj ps) = own_keys ps"
| "object_keys (JFun f ps) = own_keys ps"
| "object_keys v = []"

section \<open>Parameter interpolation\<close>

text \<open>
  \<^verbatim>\<open>Localization.containsParameters\<close> searches the value with the regular expression
  \<^verbatim>\<open>/{([^{}]*)}/g\<close>: a match is an opening brace, any number of characters that are not
  braces, and a closing brace. The flag of \<open>has_param\<close> records that an opening brace has
  been read with no brace after it.
\<close>

fun has_param :: "string \<Rightarrow> bool \<Rightarrow> bool" where
  "has_param [] opened = False"
| "has_param (c # cs) opened =
     (if c = CHR ''{'' then has_param cs True
      else if c = CHR ''}'' then (opened \<or> has_param cs False)
      else has_param cs opened)"

definition containsParameters :: "jsval \<Rightarrow> error + bool" where
  "containsParameters localizationValue =
     (case localizationValue of
        JStr s \<Rightarrow> Inr (has_param s False)
      | _ \<Rightarrow> Inl (Error ''localizationParameter is required''))"

text \<open>
  The loop of \<^verbatim>\<open>Localization.replaceParameters\<close>, one character per step, with the loop
  variables \<^verbatim>\<open>prev\<close>, \<^verbatim>\<open>isOpen\<close>, \<^verbatim>\<open>variable\<close> and \<^verbatim>\<open>val\<close>.
\<close>

fun scan :: "jsval \<Rightarrow> jsval \<Rightarrow> string \<Rightarrow> char option \<Rightarrow> bool \<Rightarrow> string \<Rightarrow> string \<Rightarrow> string" where
  "scan params defaultVal [] prev isOpen variable val = val"
| "scan params defaultVal (c # cs) prev isOpen variable val =
     (if \<not> isOpen \<and> c = CHR ''{'' \<and> prev \<noteq> Some (CHR ''%'') then
        scan params defaultVal cs (Some c) True variable val
      else if isOpen \<and> c = CHR ''}'' then
        scan params defaultVal cs (Some c) False []
          (val @ to_string (js_or (get_prop params variable) (js_or defaultVal (JStr variable))))
      else if isOpen then
        scan params defaultVal cs (Some c) True (variable @ [c]) val
      else
        scan params defaultVal cs (Some c) False variable (val @ [c]))"

definition replaceParameters :: "jsval \<Rightarrow> jsval \<Rightarrow> jsval \<Rightarrow> error + jsval" where
  "replaceParameters v params defaultVal =
     (case v of
        JStr s \<Rightarrow>
          (if \<not> isObject params then Inl (Error ''params parameter is required'')
           else Inr (JStr (scan params defaultVal s None False [] [])))
      | _ \<Rightarrow> Inl (Error ''value parameter is required''))"

section \<open>Locale identifiers\<close>

text \<open>
  String helpers of \<^verbatim>\<open>parseLocaleStr\<close> and \<^verbatim>\<open>formatLocale\<close>. Case conversion is the
  ASCII one. \<open>lastIndexOf\<close> is used with the non-empty patterns \<^verbatim>\<open>'/'\<close>, \<^verbatim>\<open>'\\'\<close> and
  \<^verbatim>\<open>'.js'\<close> only; \<open>substr\<close> takes the start (never negative here) and a length that
  may be negative.
\<close>

definition lower_char :: "char \<Rightarrow> char" where
  "lower_char c = (let n = (of_char c :: nat) in if 65 \<le> n \<and> n \<le> 90 then char_of (n + 32) else c)"

definition upper_char :: "char \<Rightarrow> char" where
  "upper_char c = (let n = (of_char c :: nat) in if 97 \<le> n \<and> n \<le> 122 then char_of (n - 32) else c)"

definition toLowerCase :: "string \<Rightarrow> string" where
  "toLowerCase s = map lower_char s"

definition toUpperCase :: "string \<Rightarrow> string" where
  "toUpperCase s = map upper_char s"

fun last_index :: "string \<Rightarrow> string \<Rightarrow> nat \<Rightarrow> int \<Rightarrow> int" where
  "last_index pat [] i best = best"
| "last_index pat (c # cs) i best =
     last_index pat cs (Suc i) (if take (length pat) (c # cs) = pat then int i else best)"

definition lastIndexOf :: "string \<Rightarrow> string \<Rightarrow> int" where
  "lastIndexOf s pat = last_index pat s 0 (- 1)"

definition substr :: "string \<Rightarrow> nat \<Rightarrow> int \<Rightarrow> string" where
  "substr s start len = (if len \<le> 0 then [] else take (nat len) (drop start s))"

fun split_on :: "char \<Rightarrow> string \<Rightarrow> string \<Rightarrow> string list" where
  "split_on sep [] cur = [cur]"
| "split_on sep (c # cs) cur =
     (if c = sep then cur # split_on sep cs [] else split_on sep cs (cur @ [c]))"

text \<open>The string branch of \<^verbatim>\<open>Localization.parseLocaleStr\<close> (lines 872 to 889).\<close>

definition parse_path :: "string \<Rightarrow> jsval" where
  "parse_path filePath =
     (let lastSlashPos0 = lastIndexOf filePath ''/'';
          lastSlashPos = (if lastSlashPos0 < 0 then lastIndexOf filePath [CHR 0x5C] else lastSlashPos0);
          extPos0 = lastIndexOf filePath ''.js'';
          extPos = (if extPos0 < 0 then int (length filePath) else extPos0);
          locale = substr filePath (nat (lastSlashPos + 1)) (extPos - lastSlashPos - 1);
          parts = split_on (CHR ''-'') locale [];
          lang = (case parts of p0 # _ \<Rightarrow> (if p0 \<noteq> [] then JStr (toLowerCase p0) else JNull)
                  | [] \<Rightarrow> JNull);
          countryCode = (case parts of _ # p1 # _ \<Rightarrow> (if p1 \<noteq> [] then JStr (toUpperCase p1) else JNull)
                  | _ \<Rightarrow> JNull)
      in JObj [(''language'', lang), (''countryCode'', countryCode)])"

definition parseLocaleStr :: "jsval \<Rightarrow> error + jsval" where
  "parseLocaleStr filePath =
     (if isObject filePath then
        (if \<not> isString (get_prop filePath ''language'') then
           Inl (Error ''filePath.language parameter is required'')
         else if \<not> isNil (get_prop filePath ''countryCode'')
                 \<and> \<not> isString (get_prop filePath ''countryCode'') then
           Inl (Error ''filePath.countryCode parameter must be a string'')
         else Inr filePath)
      else if \<not> isString filePath then Inl (Error ''filePath parameter is required'')
      else Inr (parse_path (to_string filePath)))"

text \<open>
  \<^verbatim>\<open>Localization.formatLocale\<close>. Line 905 calls \<^verbatim>\<open>_.isNullOrUndefined\<close>, and \<^verbatim>\<open>_\<close> is the
  lodash module, which has no member of that name: the property is \<^verbatim>\<open>undefined\<close>, and the
  call raises a TypeError whenever the test of line 902 lets the language pass.
  \<open>lodash_isNullOrUndefined\<close> is that member of the module.
\<close>

definition lodash_isNullOrUndefined :: "(jsval \<Rightarrow> bool) option" where
  "lodash_isNullOrUndefined = None"

definition formatLocale :: "jsval \<Rightarrow> jsval \<Rightarrow> error + string" where
  "formatLocale language countryCode =
     (if \<not> isString language then Inl (Error ''language parameter is required'')
      else
        (case lodash_isNullOrUndefined of
           None \<Rightarrow> Inl TypeError
         | Some isNullOrUndefined \<Rightarrow>
             (if \<not> isNullOrUndefined countryCode \<and> \<not> isString countryCode then
                Inl (Error ''countryCode parameter must be a string'')
              else
                (let localeStr = toLowerCase (to_string language)
                 in if isString countryCode
                    then Inr (localeStr @ ''-'' @ toUpperCase (to_string countryCode))
                    else Inr localeStr))))"

text \<open>The private function \<^verbatim>\<open>parseLocale\<close> (lines 964 to 977).\<close>

definition parseLocale :: "jsval \<Rightarrow> error + jsval" where
  "parseLocale locale0 =
     (case (if isString locale0 then parseLocaleStr locale0 else Inr locale0) of
        Inl e \<Rightarrow> Inl e
      | Inr locale \<Rightarrow>
          (if isObject locale then
             (if \<not> isString (get_prop locale ''language'') then Inl (Error ''locale.language is required'')
              else Inr locale)
           else Inl (Error ''locale is required'')))"

text \<open>The private function \<^verbatim>\<open>k\<close>: \<^verbatim>\<open>'__' + key\<close>.\<close>

definition k :: "jsval \<Rightarrow> string" where
  "k key = ''__'' @ to_string key"

section \<open>Process-wide state\<close>

text \<open>
  \<^verbatim>\<open>Localization.storage\<close> and \<^verbatim>\<open>Localization.supportedLookup\<close>, together with the
  configuration value \<^verbatim>\<open>Configuration.active.localization.defaultLocale\<close>, which the code
  only reads. \<^verbatim>\<open>Localization.supported\<close> is rebuilt from the names of
  \<^verbatim>\<open>supportedLookup\<close> at every change and is therefore a function of the state.
\<close>

record state =
  storage :: jsobj
  supportedLookup :: jsobj
  cfg_defaultLocale :: jsval

definition supported :: "state \<Rightarrow> string list" where
  "supported st = own_keys (supportedLookup st)"

definition getDefaultLocale :: "state \<Rightarrow> jsval" where
  "getDefaultLocale st = js_or (cfg_defaultLocale st) (JStr ''en-US'')"

text \<open>The private function \<^verbatim>\<open>findKeyBlock\<close>: the state after the call, and the block returned.\<close>

definition findKeyBlock :: "state \<Rightarrow> string \<Rightarrow> bool \<Rightarrow> jsval \<times> state" where
  "findKeyBlock st key create =
     (let st1 = (if create \<and> get_prop (JObj (storage st)) key = JUndefined
                 then st\<lparr>storage := own_set (storage st) key (JObj [])\<rparr> else st)
      in (get_prop (JObj (storage st1)) key, st1))"

text \<open>
  \<^verbatim>\<open>Localization.isSupported\<close>. An argument that is not a non-empty string gives false;
  \<^verbatim>\<open>_registerLocale\<close> calls it with the parsed locale object.
\<close>

definition isSupported :: "state \<Rightarrow> jsval \<Rightarrow> error + bool" where
  "isSupported st locale =
     (if \<not> isString locale \<or> to_string locale = [] then Inr False
      else
        (case parseLocaleStr locale of
           Inl e \<Rightarrow> Inl e
         | Inr localeObj \<Rightarrow>
             (case formatLocale (get_prop localeObj ''language'') (get_prop localeObj ''countryCode'') of
                Inl e \<Rightarrow> Inl e
              | Inr name \<Rightarrow> Inr (truthy (get_prop (JObj (supportedLookup st)) name)))))"

section \<open>Registration of a single key\<close>

text \<open>
  \<^verbatim>\<open>Localization._registerLocalization\<close> walks from the key block to the block that
  receives the value and creates the missing blocks on the way. The blocks are shared, mutable
  objects in the source; here each level returns its block as it is after the call, together
  with the error raised below it, if any, and the parent that owns the block stores it back
  (\<open>put_back\<close>).

  \<open>insert_value\<close> is lines 605 to 617 (the value block and its slot), \<open>insert_country\<close>
  lines 595 to 602 and \<open>insert_lang\<close> lines 588 to 592. Assigning to a property of a
  boolean or string primitive raises a TypeError under \<^verbatim>\<open>'use strict'\<close>, as does reading
  a property of \<^verbatim>\<open>null\<close>.

  The private functions \<^verbatim>\<open>_registerLocalization\<close> and \<^verbatim>\<open>_registerLocale\<close> are named
  \<open>priv_registerLocalization\<close> and \<open>priv_registerLocale\<close>, since a name cannot start with
  an underscore.
\<close>

definition valueBlock :: "jsval \<Rightarrow> jsval" where
  "valueBlock v = JObj [(''value'', v), (''isParameterized'', JBool (has_param (to_string v) False))]"

definition insert_value :: "jsval \<Rightarrow> jsval \<Rightarrow> jsval \<Rightarrow> error option \<times> jsval" where
  "insert_value insertionBlock v options =
     (if \<not> isObject insertionBlock then (Some TypeError, insertionBlock)
      else if isString (get_prop options ''plugin'') then
        (let b1 = (if isNil (get_prop insertionBlock ''__plugins'')
                   then set_prop insertionBlock ''__plugins'' (JObj []) else insertionBlock);
             pluginsBlock = get_prop b1 ''__plugins''
         in if \<not> isObject pluginsBlock then (Some TypeError, b1)
            else (None, put_back b1 ''__plugins''
                    (set_prop pluginsBlock (to_string (get_prop options ''plugin'')) (valueBlock v))))
      else (None, set_prop insertionBlock ''__default'' (valueBlock v)))"

definition insert_country :: "jsval \<Rightarrow> jsval \<Rightarrow> jsval \<Rightarrow> jsval \<Rightarrow> error option \<times> jsval" where
  "insert_country langBlock locale v options =
     (if isString (get_prop locale ''countryCode'') then
        (let countryKey = k (get_prop locale ''countryCode'')
         in if \<not> isObject langBlock then (Some TypeError, langBlock)
            else
              (let b1 = (if isNil (get_prop langBlock countryKey)
                         then set_prop langBlock countryKey (JObj []) else langBlock)
               in case insert_value (get_prop b1 countryKey) v options of
                    (e, countryBlock) \<Rightarrow> (e, put_back b1 countryKey countryBlock)))
      else insert_value langBlock v options)"

definition insert_lang :: "jsval \<Rightarrow> jsval \<Rightarrow> jsval \<Rightarrow> jsval \<Rightarrow> error option \<times> jsval" where
  "insert_lang keyBlock locale v options =
     (let langKey = k (get_prop locale ''language'')
      in if \<not> isObject keyBlock then (Some TypeError, keyBlock)
         else
           (let b1 = (if isNil (get_prop keyBlock langKey)
                      then set_prop keyBlock langKey (JObj []) else keyBlock)
            in case insert_country (get_prop b1 langKey) locale v options of
                 (e, langBlock) \<Rightarrow> (e, put_back b1 langKey langBlock)))"

definition priv_registerLocalization ::
  "state \<Rightarrow> jsval \<Rightarrow> jsval \<Rightarrow> jsval \<Rightarrow> jsval \<Rightarrow> (error + bool) \<times> state" where
  "priv_registerLocalization st locale0 key v options0 =
     (case parseLocale locale0 of
        Inl e \<Rightarrow> (Inl e, st)
      | Inr locale \<Rightarrow>
          (if \<not> isString key then (Inl (Error ''key parameter is required''), st)
           else if \<not> isString v then (Inl (Error ''value parameter is required''), st)
           else
             (let options = (if isObject options0 then options0 else JObj [])
              in case findKeyBlock st (to_string key) True of
                   (keyBlock, st1) \<Rightarrow>
                     (case insert_lang keyBlock locale v options of
                        (e, keyBlock1) \<Rightarrow>
                          (case e of Some err \<Rightarrow> Inl err | None \<Rightarrow> Inr True,
                           st1\<lparr>storage := own_props
                              (put_back (JObj (storage st1)) (to_string key) keyBlock1)\<rparr>)))))"



section \<open>Removal of a single key\<close>

text \<open>
  \<^verbatim>\<open>Localization.unregisterLocalization\<close>. \<open>store_block\<close> stores a changed language block
  in its key block and the key block in the storage. Line 714 reads
  \<^verbatim>\<open>langBlock[countryKey].__default\<close> outside the test that the country block exists.
\<close>

definition store_block :: "state \<Rightarrow> string \<Rightarrow> string \<Rightarrow> jsval \<Rightarrow> state" where
  "store_block st key langKey langBlock =
     st\<lparr>storage := own_props
        (put_back (JObj (storage st)) key
           (put_back (get_prop (JObj (storage st)) key) langKey langBlock))\<rparr>"

definition unregisterLocalization ::
  "state \<Rightarrow> jsval \<Rightarrow> jsval \<Rightarrow> jsval \<Rightarrow> (error + bool) \<times> state" where
  "unregisterLocalization st locale0 key options0 =
     (case parseLocale locale0 of
        Inl e \<Rightarrow> (Inl e, st)
      | Inr locale \<Rightarrow>
          (if \<not> isString key then (Inl (Error ''key parameter is required''), st)
           else
             (let options = (if isObject options0 then options0 else JObj []);
                  ks = to_string key
              in if \<not> truthy (get_prop (JObj (storage st)) ks) then (Inr False, st)
                 else
                   (let keyBlock = fst (findKeyBlock st ks False)
                    in if \<not> truthy keyBlock then (Inr False, st)
                       else
                         (let langKey = k (get_prop locale ''language'');
                              langBlock = get_prop keyBlock langKey
                          in if isNil langBlock then (Inr False, st)
                             else if isString (get_prop locale ''countryCode'') then
                               (let countryKey = k (get_prop locale ''countryCode'');
                                    countryBlock = get_prop langBlock countryKey;
                                    pn = to_string (get_prop options ''plugin'')
                                in if \<not> isNil countryBlock \<and> isString (get_prop options ''plugin'') then
                                     (if isString (get_prop countryBlock pn) then
                                        (Inr True, store_block st ks langKey
                                           (put_back langBlock countryKey (delete_prop countryBlock pn)))
                                      else (Inr False, st))
                                   else if isNil countryBlock then (Inl TypeError, st)
                                   else if isObject (get_prop countryBlock ''__default'') then
                                     (Inr True, store_block st ks langKey
                                        (put_back langBlock countryKey (delete_prop countryBlock ''__default'')))
                                   else (Inr False, st))
                             else if isString (get_prop options ''plugin'')
                                     \<and> isObject (get_prop langBlock ''__plugins'') then
                               (let pluginsBlock = get_prop langBlock ''__plugins'';
                                    pn = to_string (get_prop options ''plugin'')
                                in if isString (get_prop pluginsBlock pn) then
                                     (Inr True, store_block st ks langKey
                                        (put_back langBlock ''__plugins'' (delete_prop pluginsBlock pn)))
                                   else (Inr False, st))
                             else if isString (get_prop langBlock ''__default'') then
                               (Inr True, store_block st ks langKey (delete_prop langBlock ''__default''))
                             else (Inr False, st))))))"



section \<open>Bulk registration\<close>

text \<open>
  \<^verbatim>\<open>Localization._registerLocale\<close>. \<open>processObj\<close> is the inner function of the same name:
  \<^verbatim>\<open>_.forEach\<close> visits the properties of the object in the order of \<^verbatim>\<open>Object.keys\<close> and
  pushes one queue item per property. \<open>register_queue\<close> is the \<^verbatim>\<open>while\<close> loop over the
  queue with the loop variable \<^verbatim>\<open>compoundedResult\<close>; the JavaScript operator \<^verbatim>\<open>&&\<close>
  of line 520 evaluates its right operand only when the left one is true. The call of
  \<^verbatim>\<open>formatLocale\<close> in the argument list of \<^verbatim>\<open>log.warn\<close> (line 524) is evaluated whatever
  the log level, after \<^verbatim>\<open>compoundedResult\<close> has been set to false; an error it raises ends
  the loop. After the loop, lines 529 and 530 call \<^verbatim>\<open>isSupported\<close> and \<^verbatim>\<open>formatLocale\<close>
  before the supported index is written. The logger is taken not to be at the level
  \<^verbatim>\<open>silly\<close>, so that lines 497 to 499 are skipped.
\<close>

definition processObj :: "jsval \<Rightarrow> jsval \<Rightarrow> (string \<times> jsval) list" where
  "processObj prefix obj =
     map (\<lambda>p. (if truthy prefix then to_string prefix @ ''.'' @ fst p else fst p, snd p))
       (own_entries (own_props obj))"

fun weight :: "jsval \<Rightarrow> nat" where
  "weight (JObj ps) = Suc (sum_list (map (\<lambda>p. Suc (weight (snd p))) ps))"
| "weight (JFun f ps) = Suc (sum_list (map (\<lambda>p. Suc (weight (snd p))) ps))"
| "weight v = 0"

definition queue_weight :: "(string \<times> jsval) list \<Rightarrow> nat" where
  "queue_weight queue = sum_list (map (\<lambda>p. Suc (weight (snd p))) queue)"

function register_queue ::
  "state \<Rightarrow> jsval \<Rightarrow> jsval \<Rightarrow> (string \<times> jsval) list \<Rightarrow> bool \<Rightarrow> (error + bool) \<times> state" where
  "register_queue st locale options [] compoundedResult = (Inr compoundedResult, st)"
| "register_queue st locale options (item # queue) compoundedResult =
     (if isObject (snd item) then
        register_queue st locale options (queue @ processObj (JStr (fst item)) (snd item)) compoundedResult
      else if isString (snd item) then
        (if compoundedResult then
           (case priv_registerLocalization st locale (JStr (fst item)) (snd item) options of
              (Inl e, st1) \<Rightarrow> (Inl e, st1)
            | (Inr b, st1) \<Rightarrow> register_queue st1 locale options queue b)
         else register_queue st locale options queue False)
      else
        (case formatLocale (get_prop locale ''language'') (get_prop locale ''countryCode'') of
           Inl e \<Rightarrow> (Inl e, st)
         | Inr name \<Rightarrow> register_queue st locale options queue False))"
  by pat_completeness auto
termination
proof (relation "measure (\<lambda>(st, locale, options, queue, cr). queue_weight queue)")
  show "wf (measure (\<lambda>(st, locale, options, queue, cr). queue_weight queue))"
    by simp
next
  fix st :: state and loc opts :: jsval and item :: "string \<times> jsval"
    and queue :: "(string \<times> jsval) list" and compoundedResult :: bool
  assume "isObject (snd item)"
  then have w: "weight (snd item) = Suc (sum_list (map (\<lambda>p. Suc (weight (snd p))) (own_props (snd item))))"
    by (cases "snd item") auto
  have ins: "sum_list (map f (insort_key h x xs)) = f x + sum_list (map f xs)"
    for f :: "string \<times> jsval \<Rightarrow> nat" and h :: "string \<times> jsval \<Rightarrow> int" and x xs
    by (induction xs) auto
  have srt: "sum_list (map f (sort_key h xs)) = sum_list (map f xs)"
    for f :: "string \<times> jsval \<Rightarrow> nat" and h :: "string \<times> jsval \<Rightarrow> int" and xs
    by (induction xs) (auto simp: ins)
  have flt: "sum_list (map f (filter P xs)) + sum_list (map f (filter (\<lambda>x. \<not> P x) xs)) = sum_list (map f xs)"
    for f :: "string \<times> jsval \<Rightarrow> nat" and P xs
    by (induction xs) auto
  have ent: "sum_list (map f (own_entries qs)) = sum_list (map f qs)"
    for f :: "string \<times> jsval \<Rightarrow> nat" and qs
    by (simp add: own_entries_def srt flt)
  have "queue_weight (processObj (JStr (fst item)) (snd item)) < Suc (weight (snd item))"
    by (simp add: w queue_weight_def processObj_def comp_def ent)
  then show "((st, loc, opts, queue @ processObj (JStr (fst item)) (snd item), compoundedResult),
              (st, loc, opts, item # queue, compoundedResult))
             \<in> measure (\<lambda>(st, locale, options, queue, cr). queue_weight queue)"
    by (simp add: queue_weight_def)
qed (simp_all add: queue_weight_def)

definition priv_registerLocale :: "state \<Rightarrow> jsval \<Rightarrow> jsval \<Rightarrow> jsval \<Rightarrow> (error + bool) \<times> state" where
  "priv_registerLocale st locale0 localizations options0 =
     (case parseLocale locale0 of
        Inl e \<Rightarrow> (Inl e, st)
      | Inr locale \<Rightarrow>
          (if \<not> isObject localizations then (Inl (Error ''localizations parameter is required''), st)
           else
             (let options = (if isObject options0 then options0 else JObj [])
              in case register_queue st locale options (processObj JNull localizations) True of
                   (Inl e, st1) \<Rightarrow> (Inl e, st1)
                 | (Inr compoundedResult, st1) \<Rightarrow>
                     (case (if compoundedResult then isSupported st1 locale else Inr True) of
                        Inl e \<Rightarrow> (Inl e, st1)
                      | Inr known \<Rightarrow>
                          (if compoundedResult \<and> \<not> known then
                             (case formatLocale (get_prop locale ''language'') (get_prop locale ''countryCode'') of
                                Inl e \<Rightarrow> (Inl e, st1)
                              | Inr name \<Rightarrow>
                                  (Inr compoundedResult,
                                   st1\<lparr>supportedLookup := own_set (supportedLookup st1) name locale\<rparr>))
                           else (Inr compoundedResult, st1))))))"


section \<open>Instances and lookup\<close>

text \<open>
  A \<^verbatim>\<open>Localization\<close> instance. The constructor obtains its locale string from
  \<^verbatim>\<open>Localization.best\<close>, which delegates to the external \<^verbatim>\<open>locale\<close> package; the string
  it returns is the first argument of \<open>new_Localization\<close>.
\<close>

record localization =
  language :: jsval
  localeObj :: jsval
  cache :: jsobj
  activeTheme :: jsval

definition new_Localization :: "string \<Rightarrow> jsval \<Rightarrow> localization" where
  "new_Localization best options0 =
     (let options = (if isObject options0 then options0 else JObj [])
      in \<lparr>language = JStr best, localeObj = parse_path best, cache = [],
          activeTheme = get_prop options ''activeTheme''\<rparr>)"

text \<open>
  The inner functions of \<^verbatim>\<open>Localization.g\<close>, with the variables they close over
  (\<^verbatim>\<open>key\<close>, \<^verbatim>\<open>params\<close>, \<^verbatim>\<open>options\<close>, \<^verbatim>\<open>plugin\<close>, \<^verbatim>\<open>locale\<close>, \<^verbatim>\<open>self\<close>) as arguments.
  Each returns its result and the instance with the cache as the call left it. The cache
  holds the value block that was found; the source stores a reference to the block of the
  storage, and a later registration for the same slot puts a new block there and leaves the
  cached one as it was.
\<close>

definition processValue ::
  "string \<Rightarrow> jsval \<Rightarrow> jsval \<Rightarrow> localization \<Rightarrow> jsval \<Rightarrow> (error + jsval) \<times> localization" where
  "processValue key params options self localization =
     (let self1 = self\<lparr>cache := own_set (cache self) key localization\<rparr>
      in (if truthy (get_prop localization ''isParameterized'') then
            replaceParameters (get_prop localization ''value'') params (get_prop options ''defaultParamVal'')
          else Inr (get_prop localization ''value''),
          self1))"

text \<open>
  The loop over \<^verbatim>\<open>Object.keys(pluginsBlock)\<close>: the first plugin other than the active
  one whose entry is neither \<^verbatim>\<open>null\<close> nor \<^verbatim>\<open>undefined\<close>.
\<close>

definition other_plugin :: "jsval \<Rightarrow> jsval \<Rightarrow> string option" where
  "other_plugin plugin pluginsBlock =
     (case filter (\<lambda>n. plugin \<noteq> JStr n \<and> \<not> isNil (get_prop pluginsBlock n)) (object_keys pluginsBlock) of
        [] \<Rightarrow> None
      | n # _ \<Rightarrow> Some n)"

definition processKeyBlock ::
  "string \<Rightarrow> jsval \<Rightarrow> jsval \<Rightarrow> jsval \<Rightarrow> localization \<Rightarrow> jsval \<Rightarrow> (error + jsval) \<times> localization" where
  "processKeyBlock key params options plugin self keyBlock =
     (let pluginsBlock = get_prop keyBlock ''__plugins'';
          fromDefault =
            (if \<not> isNil (get_prop keyBlock ''__default'') then
               processValue key params options self (get_prop keyBlock ''__default'')
             else (Inr JNull, self))
      in if \<not> isNil pluginsBlock then
           (if \<not> isNil (get_prop pluginsBlock (to_string plugin)) then
              processValue key params options self (get_prop pluginsBlock (to_string plugin))
            else
              (case other_plugin plugin pluginsBlock of
                 Some n \<Rightarrow> processValue key params options self (get_prop pluginsBlock n)
               | None \<Rightarrow> fromDefault))
         else fromDefault)"

definition processLanguageBlock ::
  "string \<Rightarrow> jsval \<Rightarrow> jsval \<Rightarrow> jsval \<Rightarrow> jsval \<Rightarrow> localization \<Rightarrow> jsval \<Rightarrow> (error + jsval) \<times> localization" where
  "processLanguageBlock key params options plugin locale self langBlock =
     (if \<not> isObject langBlock then (Inr JNull, self)
      else
        (let fromLanguage = (\<lambda>self1.
               case processKeyBlock key params options plugin self1 langBlock of
                 (Inl e, self2) \<Rightarrow> (Inl e, self2)
               | (Inr langResult, self2) \<Rightarrow>
                   (if isString langResult then (Inr langResult, self2) else (Inr JNull, self2)))
         in if isString (get_prop locale ''countryCode'')
               \<and> \<not> isNil (get_prop langBlock (k (get_prop locale ''countryCode''))) then
              (case processKeyBlock key params options plugin self
                      (get_prop langBlock (k (get_prop locale ''countryCode''))) of
                 (Inl e, self1) \<Rightarrow> (Inl e, self1)
               | (Inr countryResult, self1) \<Rightarrow>
                   (if isString countryResult then (Inr countryResult, self1) else fromLanguage self1))
            else fromLanguage self))"

definition finalize :: "string \<Rightarrow> jsval \<Rightarrow> jsval \<Rightarrow> jsval" where
  "finalize key options result =
     (if isString result \<or> get_prop options ''defaultVal'' \<noteq> JUndefined then result else JStr key)"

text \<open>
  \<^verbatim>\<open>Localization.g\<close>. The options used when none are passed carry
  \<^verbatim>\<open>SiteService.GLOBAL_SITE\<close>, a constant of another module that \<^verbatim>\<open>g\<close> never reads.
  The comparison \<^verbatim>\<open>!==\<close> of line 306 is between the language and country code of two
  parsed locales, which are strings or \<^verbatim>\<open>null\<close>, where it agrees with equality of values.
\<close>

definition g :: "state \<Rightarrow> localization \<Rightarrow> jsval \<Rightarrow> jsval \<Rightarrow> (error + jsval) \<times> localization" where
  "g st self key options0 =
     (let options = (if truthy options0 then options0
                     else JObj [(''site'', JStr ''global''), (''params'', JObj [])])
      in if \<not> isString key then (Inl (Error ''key parameter is required''), self)
         else if \<not> isObject options then (Inl (Error ''options parameter must be an object''), self)
         else
           (let params = js_or (get_prop options ''params'') (JObj [])
            in if \<not> isObject params then (Inl (Error ''params parameter is required''), self)
               else
                 (let ks = to_string key;
                      locale = localeObj self;
                      plugin = js_or (get_prop options ''plugin'') (activeTheme self)
                  in if \<not> truthy (get_prop (JObj (storage st)) ks) then
                       (Inr (finalize ks options (get_prop options ''defaultVal'')), self)
                     else if truthy (get_prop (JObj (cache self)) ks) then
                       (case processValue ks params options self (get_prop (JObj (cache self)) ks) of
                          (Inl e, self1) \<Rightarrow> (Inl e, self1)
                        | (Inr r, self1) \<Rightarrow> (Inr (finalize ks options r), self1))
                     else
                       (let keyBlock = fst (findKeyBlock st ks False)
                        in if \<not> truthy keyBlock then (Inr JNull, self)
                           else
                             (case processLanguageBlock ks params options plugin locale self
                                     (get_prop keyBlock (k (get_prop locale ''language''))) of
                                (Inl e, self1) \<Rightarrow> (Inl e, self1)
                              | (Inr result, self1) \<Rightarrow>
                                  (if \<not> isString result then
                                     (case parseLocaleStr (getDefaultLocale st) of
                                        Inl e \<Rightarrow> (Inl e, self1)
                                      | Inr defaultLocale \<Rightarrow>
                                          (if get_prop defaultLocale ''language'' \<noteq> get_prop (localeObj self) ''language''
                                              \<or> get_prop defaultLocale ''countryCode'' \<noteq> get_prop (localeObj self) ''countryCode''
                                           then
                                             (case processLanguageBlock ks params options plugin defaultLocale self1
                                                     (get_prop keyBlock (k (get_prop defaultLocale ''language''))) of
                                                (Inl e, self2) \<Rightarrow> (Inl e, self2)
                                              | (Inr result2, self2) \<Rightarrow> (Inr (finalize ks options result2), self2))
                                           else
                                             (Inr (finalize ks options (get_prop options ''defaultVal'')), self1)))
                                   else (Inr (finalize ks options result), self1)))))))"

section \<open>Observing the state\<close>

text \<open>
  The options accepted by \<^verbatim>\<open>g\<close> without an error: the argument is an object or falsy
  (then the default options are used), and so is its \<^verbatim>\<open>params\<close> property.
\<close>

definition valid_options :: "jsval \<Rightarrow> bool" where
  "valid_options options =
     ((isObject options \<or> \<not> truthy options)
      \<and> (isObject (get_prop options ''params'') \<or> \<not> truthy (get_prop options ''params'')))"





subsection \<open>Example states\<close>

text \<open>
  The state of the module when it is loaded (lines 920 to 933), with no default locale
  configured, and states reached from it by registrations of the key \<^verbatim>\<open>greeting\<close>.
\<close>

definition init_state :: state where
  "init_state = \<lparr>storage = [], supportedLookup = [], cfg_defaultLocale = JUndefined\<rparr>"

definition ex_fr_only :: state where
  "ex_fr_only = snd (priv_registerLocalization init_state (JStr ''fr'') (JStr ''greeting'') (JStr ''Bonjour'') JUndefined)"

definition ex_en_only :: state where
  "ex_en_only = snd (priv_registerLocalization init_state (JStr ''en'') (JStr ''greeting'') (JStr ''Hello'') JUndefined)"

definition ex_default :: state where
  "ex_default = snd (priv_registerLocalization init_state (JStr ''en-US'') (JStr ''greeting'') (JStr ''Hello'') JUndefined)"




text \<open>
  States reached by registrations of the key \<^verbatim>\<open>constructor\<close>, a name that the storage
  inherits from \<^verbatim>\<open>Object.prototype\<close>: for \<^verbatim>\<open>en-US\<close> and the plugin \<^verbatim>\<open>blog\<close>; for
  \<^verbatim>\<open>en-US\<close> in the default slot, and then also for \<^verbatim>\<open>en\<close>.
\<close>

definition ex_constructor_plugin :: state where
  "ex_constructor_plugin =
     snd (priv_registerLocalization init_state (JStr ''en-US'') (JStr ''constructor'') (JStr ''Hello'')
            (JObj [(''plugin'', JStr ''blog'')]))"

definition ex_constructor_country :: state where
  "ex_constructor_country =
     snd (priv_registerLocalization init_state (JStr ''en-US'') (JStr ''constructor'') (JStr ''Howdy'') JUndefined)"

definition ex_constructor_both :: state where
  "ex_constructor_both =
     snd (priv_registerLocalization ex_constructor_country (JStr ''en'') (JStr ''constructor'') (JStr ''Hello'')
            JUndefined)"

section \<open>Objects and their properties\<close>











lemma not_obj_get_prop: "\<not> isObject b \<Longrightarrow> get_prop b n = JUndefined"
  by (cases b) simp_all


lemma isObject_truthy: "isObject v \<Longrightarrow> truthy v"
  by (cases v) simp_all



section \<open>A lookup that finds the key in the cache\<close>


lemma params_object:
  "valid_options options \<Longrightarrow> isObject (js_or (get_prop options ''params'') (JObj []))"
  by (auto simp: valid_options_def js_or_def)





section \<open>Key blocks are never removed\<close>



















section \<open>A lookup of a name that the storage does not answer\<close>

lemma g_key_not_in_storage:
  assumes "get_prop (JObj (storage st)) key = JUndefined" and "valid_options options"
  shows "g st self (JStr key) options
       = (Inr (if get_prop options ''defaultVal'' = JUndefined then JStr key
               else get_prop options ''defaultVal''), self)"
proof (cases "isObject options")
  case True
  then have t: "truthy options" by (rule isObject_truthy)
  show ?thesis
    using assms True t params_object[OF assms(2)]
    unfolding g_def Let_def
    by (simp add: finalize_def del: get_prop.simps)
next
  case False
  with assms have f: "\<not> truthy options" "get_prop options ''defaultVal'' = JUndefined"
    by (auto simp: valid_options_def not_obj_get_prop)
  have d: "get_prop (JObj [(''site'', JStr ''global''), (''params'', JObj [])]) ''defaultVal'' = JUndefined"
    by (simp add: inherited_def Object_prototype_def)
  have p: "isObject (js_or (get_prop (JObj [(''site'', JStr ''global''), (''params'', JObj [])]) ''params'')
             (JObj []))"
    by (simp add: js_or_def)
  show ?thesis
    using assms(1) f p
    unfolding g_def Let_def
    by (simp add: finalize_def d del: get_prop.simps)
qed

section \<open>C1: the default value after both walks fail\<close>

text \<open>
  C1 states that \<^verbatim>\<open>g\<close> returns \<^verbatim>\<open>options.defaultVal\<close> when neither the locale of the
  instance nor the differing default locale yields a string. On the state \<open>ex_fr_only\<close>,
  where \<^verbatim>\<open>greeting\<close> is registered for \<^verbatim>\<open>fr\<close> only, an instance for \<^verbatim>\<open>de-DE\<close> (the
  default locale being \<^verbatim>\<open>en-US\<close>) that asks for \<^verbatim>\<open>greeting\<close> with the default value
  \<^verbatim>\<open>"n/a"\<close> receives \<^verbatim>\<open>null\<close>: the branch of line 306 leaves the result of the second
  walk in \<^verbatim>\<open>result\<close>, only the branch of line 313 assigns \<^verbatim>\<open>options.defaultVal\<close>, and
  \<^verbatim>\<open>finalize\<close> returns \<^verbatim>\<open>result\<close> whenever a default value was passed.
\<close>

theorem C1_default_value_dropped:
  "g ex_fr_only (new_Localization ''de-DE'' JUndefined) (JStr ''greeting'')
     (JObj [(''defaultVal'', JStr ''n/a'')])
   = (Inr JNull, new_Localization ''de-DE'' JUndefined)"
  by code_simp

text \<open>The value returned in that call is not the default value that was passed.\<close>

theorem C1_default_value_dropped_witness:
  "fst (g ex_fr_only (new_Localization ''de-DE'' JUndefined) (JStr ''greeting'')
          (JObj [(''defaultVal'', JStr ''n/a'')]))
   \<noteq> Inr (JStr ''n/a'')"
  using C1_default_value_dropped by simp

section \<open>C2: registering and unregistering one key\<close>

text \<open>
  C2 states that unregistering a locale and key that were registered without a plugin
  leaves the storage without that default slot. For the locale \<^verbatim>\<open>en\<close>, which has no
  country code, \<^verbatim>\<open>_registerLocalization\<close> returns true and writes the value block of
  \<^verbatim>\<open>"Hello"\<close> to the default slot of the language block; \<^verbatim>\<open>unregisterLocalization\<close> for
  the same locale and key then returns false and leaves the storage as it was, the slot
  included: line 734 asks whether \<^verbatim>\<open>langBlock.__default\<close> is a string, and the slot holds a
  value block, which is an object (line 714, for a locale with a country code, asks whether
  the slot is an object).
\<close>

theorem C2_language_default_slot_kept:
  "priv_registerLocalization init_state (JStr ''en'') (JStr ''greeting'') (JStr ''Hello'') JUndefined
     = (Inr True, ex_en_only)
   \<and> unregisterLocalization ex_en_only (JStr ''en'') (JStr ''greeting'') JUndefined
     = (Inr False, ex_en_only)
   \<and> get_prop (get_prop (get_prop (JObj (storage ex_en_only)) ''greeting'') ''__en'') ''__default''
     = valueBlock (JStr ''Hello'')"
  by code_simp

text \<open>The removal does not report a removed slot, and the slot is not \<^verbatim>\<open>undefined\<close> afterwards.\<close>

theorem C2_language_default_slot_kept_witness:
  "fst (unregisterLocalization ex_en_only (JStr ''en'') (JStr ''greeting'') JUndefined) \<noteq> Inr True
   \<and> get_prop (get_prop (get_prop (JObj (storage
         (snd (unregisterLocalization ex_en_only (JStr ''en'') (JStr ''greeting'') JUndefined))))
       ''greeting'') ''__en'') ''__default'' \<noteq> JUndefined"
  using C2_language_default_slot_kept by (simp add: valueBlock_def del: get_prop.simps)

section \<open>C3: bulk registration\<close>

text \<open>
  C3 states that every string leaf of the map is passed to \<^verbatim>\<open>_registerLocalization\<close>
  whatever happens to the other leaves, that a leaf that is neither an object nor a string
  counts as a failure, and that the call returns true when every leaf succeeded. In the map
  \<^verbatim>\<open>{title: null, greeting: "Hello"}\<close> the leaf \<^verbatim>\<open>title\<close> is neither an object nor a string:
  line 524 builds the arguments of \<^verbatim>\<open>log.warn\<close>, the call of \<^verbatim>\<open>formatLocale\<close> among them
  raises a TypeError (line 905), and \<^verbatim>\<open>_registerLocale\<close> ends there with the storage still
  empty, \<^verbatim>\<open>greeting\<close> not registered. In the map \<^verbatim>\<open>{greeting: "Hello"}\<close> the only leaf is
  registered, and line 530 then raises the same TypeError instead of returning true.
\<close>

theorem C3_bulk_registration_raises:
  "priv_registerLocale init_state (JStr ''en-US'')
     (JObj [(''title'', JNull), (''greeting'', JStr ''Hello'')]) JUndefined
   = (Inl TypeError, init_state)
   \<and> priv_registerLocale init_state (JStr ''en-US'')
     (JObj [(''greeting'', JStr ''Hello'')]) JUndefined
   = (Inl TypeError, ex_default)"
  by code_simp

text \<open>
  The first of these calls does not return false, and the storage it leaves has no entry
  for \<^verbatim>\<open>greeting\<close>; the second does not return true.
\<close>

theorem C3_bulk_registration_raises_witness:
  "fst (priv_registerLocale init_state (JStr ''en-US'')
      (JObj [(''title'', JNull), (''greeting'', JStr ''Hello'')]) JUndefined) \<noteq> Inr False
   \<and> get_prop (JObj (storage (snd (priv_registerLocale init_state (JStr ''en-US'')
      (JObj [(''title'', JNull), (''greeting'', JStr ''Hello'')]) JUndefined)))) ''greeting'' = JUndefined
   \<and> fst (priv_registerLocale init_state (JStr ''en-US'')
      (JObj [(''greeting'', JStr ''Hello'')]) JUndefined) \<noteq> Inr True"
  using C3_bulk_registration_raises by (simp add: init_state_def inherited_def Object_prototype_def)

section \<open>C4: the interpolator on the documented examples\<close>

text \<open>
  C4 (first and third example, and the second as the code computes it):
  \<^verbatim>\<open>replaceParameters("Hello {name}", {name: "World"})\<close> is \<^verbatim>\<open>"Hello World"\<close>,
  \<^verbatim>\<open>containsParameters("plain text")\<close> is false, and
  \<^verbatim>\<open>replaceParameters("{a}{b}", {a: "x"})\<close> is \<^verbatim>\<open>"xb"\<close>: the placeholder without a
  parameter is replaced by its own name, and nothing is put between two replacements.
\<close>

theorem C4_interpolator_examples:
  "replaceParameters (JStr ''Hello {name}'') (JObj [(''name'', JStr ''World'')]) JUndefined
     = Inr (JStr ''Hello World'')
   \<and> replaceParameters (JStr ''{a}{b}'') (JObj [(''a'', JStr ''x'')]) JUndefined
     = Inr (JStr ''xb'')
   \<and> containsParameters (JStr ''plain text'') = Inr False"
  by code_simp

text \<open>
  C4 as stated fails on its second example: the result is not \<^verbatim>\<open>"x b"\<close>.
\<close>

theorem C4_counterexample:
  "replaceParameters (JStr ''{a}{b}'') (JObj [(''a'', JStr ''x'')]) JUndefined
     \<noteq> Inr (JStr ''x b'')"
  by code_simp

section \<open>C5: unregistering below a missing country block\<close>

text \<open>
  C5 states that \<^verbatim>\<open>unregisterLocalization\<close> returns false, without an error, when the
  country block of the locale is absent. On \<open>ex_en_only\<close>, where \<^verbatim>\<open>greeting\<close> is registered
  for \<^verbatim>\<open>en\<close> only, unregistering \<^verbatim>\<open>greeting\<close> for \<^verbatim>\<open>en-US\<close> raises a TypeError: line 714
  reads \<^verbatim>\<open>langBlock[countryKey].__default\<close> after the test of line 696 found no country
  block. The storage is unchanged.
\<close>

theorem C5_missing_country_block_raises:
  "unregisterLocalization ex_en_only (JStr ''en-US'') (JStr ''greeting'') JUndefined
   = (Inl TypeError, ex_en_only)"
  by code_simp

text \<open>The outcome of that call is not the value false.\<close>

theorem C5_missing_country_block_raises_witness:
  "fst (unregisterLocalization ex_en_only (JStr ''en-US'') (JStr ''greeting'') JUndefined) \<noteq> Inr False"
  using C5_missing_country_block_raises by simp

section \<open>C6: the value of the plugin of the hint\<close>

text \<open>
  C6 states that a first lookup on a fresh instance with the plugin hint of a registered
  locale, key and plugin returns the value registered for that plugin. For the key
  \<^verbatim>\<open>constructor\<close>, registered for \<^verbatim>\<open>en-US\<close> and the plugin \<^verbatim>\<open>blog\<close> with the value
  \<^verbatim>\<open>"Hello"\<close> on the empty storage, \<^verbatim>\<open>_registerLocalization\<close> returns true and the storage
  has no property of its own afterwards: \<^verbatim>\<open>findKeyBlock\<close> (line 1004) finds that
  \<^verbatim>\<open>Localization.storage['constructor']\<close> is not \<^verbatim>\<open>undefined\<close>, because the storage is a
  plain object and inherits \<^verbatim>\<open>constructor\<close>, and the registration writes to the function it
  gets. In \<^verbatim>\<open>g\<close>, \<^verbatim>\<open>this.cache['constructor']\<close> is that function too (line 286), and the
  lookup with the hint \<^verbatim>\<open>blog\<close> returns the key, not \<^verbatim>\<open>"Hello"\<close>.
\<close>

theorem C6_inherited_key_shadows_plugin_value:
  "priv_registerLocalization init_state (JStr ''en-US'') (JStr ''constructor'') (JStr ''Hello'')
      (JObj [(''plugin'', JStr ''blog'')])
     = (Inr True, ex_constructor_plugin)
   \<and> storage ex_constructor_plugin = []
   \<and> fst (g ex_constructor_plugin (new_Localization ''en-US'' JUndefined) (JStr ''constructor'')
          (JObj [(''plugin'', JStr ''blog'')]))
     = Inr (JStr ''constructor'')"
  by code_simp

text \<open>The value returned by that lookup is not the registered one.\<close>

theorem C6_inherited_key_shadows_plugin_value_witness:
  "fst (g ex_constructor_plugin (new_Localization ''en-US'' JUndefined) (JStr ''constructor'')
          (JObj [(''plugin'', JStr ''blog'')]))
   \<noteq> Inr (JStr ''Hello'')"
  using C6_inherited_key_shadows_plugin_value by simp

section \<open>C7: the country level before the language level\<close>

text \<open>
  C7 states that a key registered at the country level and at the language level of one
  language is answered with the country-level value on a fresh instance of that country.
  For the key \<^verbatim>\<open>constructor\<close>, registered with \<^verbatim>\<open>"Howdy"\<close> for \<^verbatim>\<open>en-US\<close> and with
  \<^verbatim>\<open>"Hello"\<close> for \<^verbatim>\<open>en\<close>, both registrations return true, and a fresh instance for
  \<^verbatim>\<open>en-US\<close> gets the key: as for C6, the storage and the cache answer the name
  \<^verbatim>\<open>constructor\<close> with the function they inherit, and lines 283 and 286 test what they get
  for truthiness only.
\<close>

theorem C7_inherited_key_shadows_country_value:
  "priv_registerLocalization init_state (JStr ''en-US'') (JStr ''constructor'') (JStr ''Howdy'') JUndefined
     = (Inr True, ex_constructor_country)
   \<and> priv_registerLocalization ex_constructor_country (JStr ''en'') (JStr ''constructor'') (JStr ''Hello'')
        JUndefined
     = (Inr True, ex_constructor_both)
   \<and> fst (g ex_constructor_both (new_Localization ''en-US'' JUndefined) (JStr ''constructor'') JUndefined)
     = Inr (JStr ''constructor'')"
  by code_simp

text \<open>The value returned by that lookup is not the country-level one.\<close>

theorem C7_inherited_key_shadows_country_value_witness:
  "fst (g ex_constructor_both (new_Localization ''en-US'' JUndefined) (JStr ''constructor'') JUndefined)
   \<noteq> Inr (JStr ''Howdy'')"
  using C7_inherited_key_shadows_country_value by simp

section \<open>C8: keys that were never registered\<close>

text \<open>
  C8 states that \<^verbatim>\<open>g\<close> returns \<^verbatim>\<open>options.defaultVal\<close> unchanged for a key that was never
  registered. On the empty storage, a fresh instance for \<^verbatim>\<open>en-US\<close> that asks for the key
  \<^verbatim>\<open>constructor\<close> with the default value \<^verbatim>\<open>"n/a"\<close> receives \<^verbatim>\<open>undefined\<close>: the test of
  line 283 reads the inherited \<^verbatim>\<open>constructor\<close> of the storage, the test of line 286 that of
  the cache, and \<^verbatim>\<open>processValue\<close> returns the property \<^verbatim>\<open>value\<close> of that function. Without a
  default value the same call returns the key. (For a name that the storage does not
  answer at all, \<open>g_key_not_in_storage\<close> gives the default value or the key.)
\<close>

theorem C8_inherited_key_drops_default:
  "fst (g init_state (new_Localization ''en-US'' JUndefined) (JStr ''constructor'')
          (JObj [(''defaultVal'', JStr ''n/a'')]))
     = Inr JUndefined
   \<and> fst (g init_state (new_Localization ''en-US'' JUndefined) (JStr ''constructor'') JUndefined)
     = Inr (JStr ''constructor'')"
  by code_simp

text \<open>The value returned with the default value \<^verbatim>\<open>"n/a"\<close> is not that default value.\<close>

theorem C8_inherited_key_drops_default_witness:
  "fst (g init_state (new_Localization ''en-US'' JUndefined) (JStr ''constructor'')
          (JObj [(''defaultVal'', JStr ''n/a'')]))
   \<noteq> Inr (JStr ''n/a'')"
  using C8_inherited_key_drops_default by simp

section \<open>C9: the cache decides later lookups\<close>



section \<open>C10: the entry of a registered key stays\<close>



end
